theory Spec2Isabelle
  imports Complex_Main
begin

section \<open>Values exchanged with the scraping server\<close>

text \<open>
  The server of \<^verbatim>\<open>scrapling_server.py\<close> receives JSON documents and hands their fields,
  unchecked, to \<^verbatim>\<open>run_scrape\<close>. A field is therefore any value \<^verbatim>\<open>json.loads\<close> can build.
  Numbers are the integers (floating-point numbers are left out); a Python \<^verbatim>\<open>str\<close> is a
  \<^typ>\<open>string\<close> whose elements stand for its characters, so that \<^const>\<open>length\<close> and
  \<^const>\<open>take\<close> count what \<^verbatim>\<open>len\<close> and a slice count; a \<^verbatim>\<open>dict\<close> is the list of its
  items in insertion order.
\<close>

datatype json =
    JNull
  | JBool bool
  | JInt int
  | JStr string
  | JList "json list"
  | JDict "(string \<times> json) list"

text \<open>Python's truth value of such a value, as \<^verbatim>\<open>if x:\<close> and \<^verbatim>\<open>not x\<close> read it.\<close>

fun truthy :: "json \<Rightarrow> bool" where
  "truthy JNull = False"
| "truthy (JBool b) = b"
| "truthy (JInt n) = (n \<noteq> 0)"
| "truthy (JStr s) = (s \<noteq> [])"
| "truthy (JList xs) = (xs \<noteq> [])"
| "truthy (JDict kvs) = (kvs \<noteq> [])"

text \<open>
  Two kinds of failure occur. The scraping library, called inside the \<^verbatim>\<open>try\<close> block of
  \<^verbatim>\<open>run_scrape\<close>, raises instances of \<^verbatim>\<open>Exception\<close>, of which the handler reads the type
  name and the message. The request handlers apply built-in operations to request data
  outside any \<^verbatim>\<open>try\<close>; of those failures only the type matters.
\<close>

datatype py_exception = PyException (exc_type: string) (exc_str: string)

datatype py_error =
  ValueError | AttributeError | TypeError | IndexError | UnicodeDecodeError | RecursionError

definition and_then :: "'e + 'a \<Rightarrow> ('a \<Rightarrow> 'e + 'b) \<Rightarrow> 'e + 'b" where
  "and_then m f = (case m of Inl e \<Rightarrow> Inl e | Inr x \<Rightarrow> f x)"

subsection \<open>Built-in string operations\<close>

text \<open>
  The white space that \<^verbatim>\<open>str.strip()\<close> removes: the characters for which \<^verbatim>\<open>str.isspace\<close>
  holds, among the code points below 256.
\<close>

definition is_space :: "char \<Rightarrow> bool" where
  "is_space c = (of_char c \<in> {9, 10, 11, 12, 13, 28, 29, 30, 31, 32, 133, 160 :: nat})"

definition strip :: "string \<Rightarrow> string" where
  "strip s = rev (dropWhile is_space (rev (dropWhile is_space s)))"

text \<open>
  \<^verbatim>\<open>int()\<close> skips less at the two ends of its argument: the separators 28 to 31 are white
  space for \<^verbatim>\<open>str.strip()\<close> but not for \<^verbatim>\<open>int()\<close>.
\<close>

definition is_int_space :: "char \<Rightarrow> bool" where
  "is_int_space c = (of_char c \<in> {9, 10, 11, 12, 13, 32, 133, 160 :: nat})"

definition int_strip :: "string \<Rightarrow> string" where
  "int_strip s = rev (dropWhile is_int_space (rev (dropWhile is_int_space s)))"

definition is_digit :: "char \<Rightarrow> bool" where
  "is_digit c = (48 \<le> (of_char c :: nat) \<and> (of_char c :: nat) \<le> 57)"

definition digit_val :: "char \<Rightarrow> int" where
  "digit_val c = int (of_char c) - 48"

text \<open>
  Decimal digits with single underscores between them, as \<^verbatim>\<open>int\<close> accepts them; the
  accumulator holds the value of the digits read so far.
\<close>

fun digits :: "int \<Rightarrow> string \<Rightarrow> int option" where
  "digits acc [] = Some acc"
| "digits acc [c] = (if is_digit c then Some (10 * acc + digit_val c) else None)"
| "digits acc (c # d # cs) =
     (if is_digit c then digits (10 * acc + digit_val c) (d # cs)
      else if c = CHR ''_'' \<and> is_digit d then digits (10 * acc + digit_val d) cs
      else None)"

text \<open>
  A literal without sign starts with a digit, and has at most 4300 digits: beyond that
  default limit of the interpreter the conversion is refused.
\<close>

definition max_str_digits :: nat where
  "max_str_digits = 4300"

definition unsigned :: "string \<Rightarrow> int option" where
  "unsigned s =
     (case s of
        [] \<Rightarrow> None
      | c # cs \<Rightarrow>
          if is_digit c \<and> length (filter is_digit s) \<le> max_str_digits
          then digits (digit_val c) cs
          else None)"

text \<open>
  \<^verbatim>\<open>int(s)\<close> for a string: surrounding white space, an optional sign, a literal without
  sign; anything else raises \<^verbatim>\<open>ValueError\<close>.
\<close>

definition py_int :: "string \<Rightarrow> py_error + int" where
  "py_int s =
     (let t = int_strip s;
          r = (case t of
                 [] \<Rightarrow> None
               | c # cs \<Rightarrow>
                   if c = CHR ''-'' then map_option uminus (unsigned cs)
                   else if c = CHR ''+'' then unsigned cs
                   else unsigned t)
      in case r of None \<Rightarrow> Inl ValueError | Some n \<Rightarrow> Inr n)"

text \<open>\<^verbatim>\<open>xs[i:]\<close>: a negative start counts from the end and is clamped at the front.\<close>

definition slice_from :: "'a list \<Rightarrow> int \<Rightarrow> 'a list" where
  "slice_from xs i = (if i < 0 then drop (nat (int (length xs) + i)) xs else drop (nat i) xs)"

text \<open>\<^verbatim>\<open>d.get(k, default)\<close>: only a \<^verbatim>\<open>dict\<close> has the method.\<close>

fun dict_get :: "json \<Rightarrow> string \<Rightarrow> json \<Rightarrow> py_error + json" where
  "dict_get (JDict kvs) k dflt = Inr (case map_of kvs k of None \<Rightarrow> dflt | Some v \<Rightarrow> v)"
| "dict_get _ k dflt = Inl AttributeError"

section \<open>The scraping library as the server sees it\<close>

text \<open>
  Objects of the library are known through the attributes the server reads. An element
  of a page may lack \<^verbatim>\<open>text\<close> or \<^verbatim>\<open>attrib\<close> (the code asks \<^verbatim>\<open>hasattr\<close>); \<open>el_str\<close> is what
  \<^verbatim>\<open>str(el)\<close> gives. A page has a truth value, a \<^verbatim>\<open>css\<close> method that may raise, and
  possibly \<^verbatim>\<open>get_all_text\<close> and \<^verbatim>\<open>body\<close> (\<open>page_body\<close> is \<^verbatim>\<open>str(page.body)\<close>).
\<close>

record element =
  el_text :: "string option"
  el_attrib :: "(string \<times> string) list option"
  el_str :: string

record page =
  page_truthy :: bool
  css :: "json \<Rightarrow> py_exception + element list"
  get_all_text :: "(py_exception + string) option"
  page_body :: "string option"

text \<open>
  What lies outside the program: the three fetch functions of the library (a failed
  import shows as the exception it raises), the clock, \<^verbatim>\<open>str()\<close> of a value that is not a
  string, the importability of the library's parts, and the page of the user interface.
  The natural number given to the fetchers and the clock is the number of scrapes run
  before, so that the same request may meet a different world each time.
\<close>

record scrapling_imports =
  has_Fetcher :: bool
  has_StealthyFetcher :: bool
  has_PlayWrightFetcher :: bool
  has_ScraplingMCPServer :: bool
  scrapling_version :: "string option option"

record env =
  Fetcher_get :: "nat \<Rightarrow> json \<Rightarrow> py_exception + page"
  StealthyFetcher_fetch :: "nat \<Rightarrow> json \<Rightarrow> py_exception + page"
  PlayWrightFetcher_fetch :: "nat \<Rightarrow> json \<Rightarrow> py_exception + page"
  now_isoformat :: "nat \<Rightarrow> string"
  elapsed_ms :: "nat \<Rightarrow> real"
  str_of :: "json \<Rightarrow> string"
  importable :: scrapling_imports
  uptime_seconds :: real
  python_version :: string
  UI_HTML :: string

definition py_str :: "env \<Rightarrow> json \<Rightarrow> string" where
  "py_str ev v = (case v of JStr s \<Rightarrow> s | _ \<Rightarrow> str_of ev v)"

section \<open>Scrape results and the history\<close>

datatype link = Link (href: string) (link_text: string)

datatype image = Image (src: string) (alt: string)

datatype field =
    FStr string
  | FInt int
  | FLinks "link list"
  | FImages "image list"
  | FElements "string list"

record scrape_result =
  success :: bool
  url :: json
  fetcher :: json
  timestamp :: string
  data :: "(string \<times> field) list option"
  error :: "string option"
  timing_ms :: real

text \<open>
  The global state: the list \<^verbatim>\<open>SCRAPE_HISTORY\<close>, and the number of scrapes run so far,
  which indexes the outside world.
\<close>

record server =
  SCRAPE_HISTORY :: "scrape_result list"
  scrapes_run :: nat

section \<open>The scrape operation\<close>

text \<open>\<^verbatim>\<open>el.text if hasattr(el, 'text') else str(el)\<close>\<close>

definition text_of :: "element \<Rightarrow> string" where
  "text_of el = (case el_text el of Some t \<Rightarrow> t | None \<Rightarrow> el_str el)"

text \<open>\<^verbatim>\<open>el.attrib.get(k, "") if hasattr(el, 'attrib') else ""\<close>\<close>

definition attrib_get :: "element \<Rightarrow> string \<Rightarrow> string" where
  "attrib_get el k =
     (case el_attrib el of
        None \<Rightarrow> []
      | Some kvs \<Rightarrow> (case map_of kvs k of None \<Rightarrow> [] | Some v \<Rightarrow> v))"

definition status_item :: "string \<times> field" where
  "status_item = (''status'', FStr ''success'')"

text \<open>
  The body of \<^verbatim>\<open>if page:\<close> in \<^verbatim>\<open>run_scrape\<close>: the dictionary \<^verbatim>\<open>data\<close> for the extraction
  mode, or the first exception a call into the page raises. The branches are tried in
  the order of the source, and a mode that matches none leaves \<^verbatim>\<open>data\<close> as it started.
\<close>

definition extract_data :: "page \<Rightarrow> json \<Rightarrow> json \<Rightarrow> py_exception + (string \<times> field) list" where
  "extract_data pg selectors extract_type =
     (if extract_type = JStr ''full'' then
        and_then (css pg (JStr ''title'')) (\<lambda>title_els.
        and_then (case get_all_text pg of
                    None \<Rightarrow> Inr 0
                  | Some t \<Rightarrow> and_then t (\<lambda>txt. Inr (int (length txt)))) (\<lambda>text_length.
        and_then (css pg (JStr ''a[href]'')) (\<lambda>links.
        and_then (css pg (JStr ''img'')) (\<lambda>imgs.
          Inr [status_item,
               (''title'', FStr (case title_els of [] \<Rightarrow> [] | el # _ \<Rightarrow> text_of el)),
               (''text_length'', FInt text_length),
               (''html_length'',
                  FInt (case page_body pg of None \<Rightarrow> 0 | Some b \<Rightarrow> int (length b))),
               (''link_count'', FInt (int (length links))),
               (''image_count'', FInt (int (length imgs)))]))))
      else if extract_type = JStr ''links'' then
        and_then (css pg (JStr ''a[href]'')) (\<lambda>links.
          Inr [status_item,
               (''links'',
                  FLinks (map (\<lambda>a. Link (attrib_get a ''href'') (take 100 (text_of a)))
                            (take 50 links)))])
      else if extract_type = JStr ''images'' then
        and_then (css pg (JStr ''img'')) (\<lambda>imgs.
          Inr [status_item,
               (''images'',
                  FImages (map (\<lambda>img. Image (attrib_get img ''src'')
                                           (take 100 (attrib_get img ''alt'')))
                             (take 50 imgs)))])
      else if extract_type = JStr ''text'' then
        (case get_all_text pg of
           None \<Rightarrow> Inr [status_item, (''text'', FStr [])]
         | Some t \<Rightarrow> and_then t (\<lambda>txt. Inr [status_item, (''text'', FStr (take 5000 txt))]))
      else if extract_type = JStr ''css'' \<and> truthy selectors then
        and_then (css pg selectors) (\<lambda>elements.
          Inr [status_item,
               (''elements'',
                  FElements (map (\<lambda>el. take 200 (text_of el)) (take 30 elements)))])
      else Inr [status_item])"

text \<open>
  The \<^verbatim>\<open>try\<close> block of \<^verbatim>\<open>run_scrape\<close>. It ends in one of three ways without an
  exception: the fetcher name is unknown, the page is empty, or the data are extracted.
\<close>

datatype attempt = Unknown_fetcher | Empty_page | Extracted "(string \<times> field) list"

definition shape :: "json \<Rightarrow> json \<Rightarrow> page \<Rightarrow> py_exception + attempt" where
  "shape selectors extract_type pg =
     (if page_truthy pg
      then and_then (extract_data pg selectors extract_type) (\<lambda>d. Inr (Extracted d))
      else Inr Empty_page)"

definition scrape_attempt ::
  "env \<Rightarrow> nat \<Rightarrow> json \<Rightarrow> json \<Rightarrow> json \<Rightarrow> json \<Rightarrow> py_exception + attempt" where
  "scrape_attempt ev n u fetcher_type selectors extract_type =
     (if fetcher_type = JStr ''basic'' then
        and_then (Fetcher_get ev n u) (shape selectors extract_type)
      else if fetcher_type = JStr ''stealthy'' then
        and_then (StealthyFetcher_fetch ev n u) (shape selectors extract_type)
      else if fetcher_type = JStr ''playwright'' then
        and_then (PlayWrightFetcher_fetch ev n u) (shape selectors extract_type)
      else Inr Unknown_fetcher)"

text \<open>
  \<^verbatim>\<open>run_scrape(url, fetcher_type, selectors, extract_type)\<close> on the state \<open>s\<close>: the result
  and the state afterwards. The branch of the unknown fetcher returns from inside the
  \<^verbatim>\<open>try\<close> block, before the timing is taken and the result is appended to the history;
  \<^verbatim>\<open>except Exception\<close> turns an exception into the error string; every other end of the
  block goes on to the last three lines of the function.
\<close>

definition run_scrape ::
  "env \<Rightarrow> server \<Rightarrow> json \<Rightarrow> json \<Rightarrow> json \<Rightarrow> json \<Rightarrow> scrape_result \<times> server" where
  "run_scrape ev s u fetcher_type selectors extract_type =
     (let n = scrapes_run s;
          s1 = s\<lparr>scrapes_run := Suc n\<rparr>;
          result = \<lparr>success = False, url = u, fetcher = fetcher_type,
                    timestamp = now_isoformat ev n, data = None, error = None,
                    timing_ms = 0\<rparr>;
          finish = (\<lambda>r. let r' = r\<lparr>timing_ms := elapsed_ms ev n\<rparr>
                         in (r', s1\<lparr>SCRAPE_HISTORY := SCRAPE_HISTORY s1 @ [r']\<rparr>))
      in case scrape_attempt ev n u fetcher_type selectors extract_type of
           Inr Unknown_fetcher \<Rightarrow>
             (result\<lparr>error := Some (''Unknown fetcher type: '' @ py_str ev fetcher_type)\<rparr>, s1)
         | Inr (Extracted d) \<Rightarrow> finish (result\<lparr>data := Some d, success := True\<rparr>)
         | Inr Empty_page \<Rightarrow> finish (result\<lparr>error := Some ''Page returned empty response''\<rparr>)
         | Inl e \<Rightarrow> finish (result\<lparr>error := Some (exc_type e @ '': '' @ exc_str e)\<rparr>))"

section \<open>The request handlers\<close>

record scrapling_status =
  st_fetcher :: bool
  st_stealthy_fetcher :: bool
  st_playwright_fetcher :: bool
  st_mcp_server :: bool
  st_version :: string

definition check_scrapling :: "env \<Rightarrow> scrapling_status" where
  "check_scrapling ev =
     \<lparr>st_fetcher = has_Fetcher (importable ev),
      st_stealthy_fetcher = has_StealthyFetcher (importable ev),
      st_playwright_fetcher = has_PlayWrightFetcher (importable ev),
      st_mcp_server = has_ScraplingMCPServer (importable ev),
      st_version = (case scrapling_version (importable ev) of
                      None \<Rightarrow> ''unknown''
                    | Some None \<Rightarrow> ''0.4+''
                    | Some (Some v) \<Rightarrow> v)\<rparr>"

datatype preset = Preset string string string string string

definition get_bali_bliss_presets :: "preset list" where
  "get_bali_bliss_presets =
     [Preset ''Wedding Venue Search'' ''Scrape Bali wedding venue listings''
        ''https://www.thebridestory.com/wedding-venues/in/bali'' ''.vendor-card'' ''css'',
      Preset ''Vendor Pricing Check'' ''Check vendor pricing pages''
        ''https://www.weddingku.com/vendor'' ''.price, .cost, .rate'' ''css'',
      Preset ''Review Monitor'' ''Monitor reviews on Google Maps''
        ''https://www.google.com/maps'' ''.review-text'' ''css'',
      Preset ''Competitor Analysis'' ''Analyze competitor wedding sites''
        [] ''h1, h2, .service, .package'' ''css'',
      Preset ''Instagram Hashtag'' ''Track Bali wedding hashtags''
        ''https://www.instagram.com/explore/tags/baliwedding/'' ''article img'' ''images'']"

definition PORT :: nat where
  "PORT = 8888"

text \<open>
  A response is the status code and the document sent; the documents are the
  dictionaries the handlers give to \<^verbatim>\<open>send_json\<close>, one constructor for each shape.
\<close>

datatype document =
    Html string
  | Status_doc string nat real scrapling_status nat string
  | History_doc "scrape_result list" nat
  | Presets_doc "preset list"
  | Message_doc bool string
  | Error_doc string
  | Result_doc scrape_result
  | Results_doc "scrape_result list"

datatype response = Response (code: nat) (sent: document)

text \<open>
  A GET request, after \<^verbatim>\<open>urlparse\<close> and \<^verbatim>\<open>parse_qs\<close>: the path, and for each name of the
  query string the list of its values.
\<close>

record get_request =
  get_path :: string
  get_params :: "(string \<times> string list) list"

text \<open>\<^verbatim>\<open>int(params.get("limit", [50])[0])\<close>\<close>

definition limit_of :: "(string \<times> string list) list \<Rightarrow> py_error + int" where
  "limit_of params =
     (case map_of params ''limit'' of
        None \<Rightarrow> Inr 50
      | Some [] \<Rightarrow> Inl IndexError
      | Some (v # _) \<Rightarrow> py_int v)"

text \<open>
  \<^verbatim>\<open>do_GET\<close>: the response sent, or the error that leaves the handler with nothing sent,
  and the state afterwards.
\<close>

definition do_GET :: "env \<Rightarrow> server \<Rightarrow> get_request \<Rightarrow> (py_error + response) \<times> server" where
  "do_GET ev s rq =
     (if get_path rq = ''/'' \<or> get_path rq = ''/index.html'' then
        (Inr (Response 200 (Html (UI_HTML ev))), s)
      else if get_path rq = ''/api/status'' then
        (Inr (Response 200
               (Status_doc ''running'' PORT (uptime_seconds ev) (check_scrapling ev)
                  (length (SCRAPE_HISTORY s)) (python_version ev))), s)
      else if get_path rq = ''/api/history'' then
        (case limit_of (get_params rq) of
           Inl e \<Rightarrow> (Inl e, s)
         | Inr limit \<Rightarrow>
             (Inr (Response 200
                    (History_doc (slice_from (SCRAPE_HISTORY s) (- limit))
                       (length (SCRAPE_HISTORY s)))), s))
      else if get_path rq = ''/api/presets'' then
        (Inr (Response 200 (Presets_doc get_bali_bliss_presets)), s)
      else if get_path rq = ''/api/clear-history'' then
        (Inr (Response 200 (Message_doc True ''History cleared'')), s\<lparr>SCRAPE_HISTORY := []\<rparr>)
      else (Inr (Response 404 (Error_doc ''Not found'')), s))"

text \<open>
  A POST request: the path, the \<^verbatim>\<open>Content-Length\<close> header if there is one, and what
  becomes of the bytes of the body in \<^verbatim>\<open>decode()\<close> and \<^verbatim>\<open>json.loads\<close>: the bytes are not
  UTF-8; \<^verbatim>\<open>json.loads\<close> raises \<^verbatim>\<open>JSONDecodeError\<close>; \<^verbatim>\<open>json.loads\<close> raises another error
  (\<^verbatim>\<open>RecursionError\<close> on a text nested deeper than the interpreter allows, \<^verbatim>\<open>ValueError\<close>
  on an integer of more than 4300 digits); or \<^verbatim>\<open>json.loads\<close> returns a document.
  \<open>Document d\<close> says that \<^verbatim>\<open>json.loads\<close> has returned \<open>d\<close>.
\<close>

datatype payload = Not_utf8 | Invalid_json | Loads_raises py_error | Document json

record post_request =
  post_path :: string
  content_length :: "string option"
  body :: payload

text \<open>\<^verbatim>\<open>int(self.headers.get("Content-Length", 0))\<close>\<close>

definition length_of :: "string option \<Rightarrow> py_error + int" where
  "length_of h = (case h of None \<Rightarrow> Inr 0 | Some v \<Rightarrow> py_int v)"

text \<open>
  \<^verbatim>\<open>urls[:10]\<close>: the first ten items of a list, the first ten characters of a string, each
  a string of its own when the loop meets it. No other value can be sliced (a \<^verbatim>\<open>dict\<close>
  fails too, from Python 3.12 on with \<^verbatim>\<open>KeyError\<close> in place of \<^verbatim>\<open>TypeError\<close>).
\<close>

fun first_ten :: "json \<Rightarrow> py_error + json list" where
  "first_ten (JList xs) = Inr (take 10 xs)"
| "first_ten (JStr cs) = Inr (map (\<lambda>c. JStr [c]) (take 10 cs))"
| "first_ten _ = Inl TypeError"

text \<open>\<^verbatim>\<open>url.strip()\<close>: only a string has the method.\<close>

fun strip_of :: "json \<Rightarrow> py_error + json" where
  "strip_of (JStr cs) = Inr (JStr (strip cs))"
| "strip_of _ = Inl AttributeError"

text \<open>
  The loop of the batch: \<open>results\<close> is the list built so far. An item that is not a
  string stops the loop with its error, after the scrapes of the items before it.
\<close>

fun batch :: "env \<Rightarrow> server \<Rightarrow> json list \<Rightarrow> json \<Rightarrow> json \<Rightarrow> scrape_result list
    \<Rightarrow> (py_error + scrape_result list) \<times> server" where
  "batch ev s [] fetcher_type extract_type results = (Inr results, s)"
| "batch ev s (u # us) fetcher_type extract_type results =
     (case strip_of u of
        Inl e \<Rightarrow> (Inl e, s)
      | Inr u' \<Rightarrow>
          (case run_scrape ev s u' fetcher_type JNull extract_type of
             (r, s') \<Rightarrow> batch ev s' us fetcher_type extract_type (results @ [r])))"

definition do_POST :: "env \<Rightarrow> server \<Rightarrow> post_request \<Rightarrow> (py_error + response) \<times> server" where
  "do_POST ev s rq =
     (case length_of (content_length rq) of
        Inl e \<Rightarrow> (Inl e, s)
      | Inr len \<Rightarrow>
          (case (if len > 0 then body rq else Document (JDict [])) of
             Not_utf8 \<Rightarrow> (Inl UnicodeDecodeError, s)
           | Invalid_json \<Rightarrow> (Inr (Response 400 (Error_doc ''Invalid JSON'')), s)
           | Loads_raises e \<Rightarrow> (Inl e, s)
           | Document doc \<Rightarrow>
               if post_path rq = ''/api/scrape'' then
                 (case dict_get doc ''url'' (JStr []) of
                    Inl e \<Rightarrow> (Inl e, s)
                  | Inr u \<Rightarrow>
                      if \<not> truthy u then
                        (Inr (Response 400 (Error_doc ''URL is required'')), s)
                      else
                        (case (dict_get doc ''fetcher'' (JStr ''basic''),
                               dict_get doc ''selectors'' (JStr []),
                               dict_get doc ''extract_type'' (JStr ''full'')) of
                           (Inr fetcher_type, Inr selectors, Inr extract_type) \<Rightarrow>
                             (case run_scrape ev s u fetcher_type selectors extract_type of
                                (r, s') \<Rightarrow> (Inr (Response 200 (Result_doc r)), s'))
                         | _ \<Rightarrow> (Inl AttributeError, s)))
               else if post_path rq = ''/api/batch-scrape'' then
                 (case (dict_get doc ''urls'' (JList []),
                        dict_get doc ''fetcher'' (JStr ''basic''),
                        dict_get doc ''extract_type'' (JStr ''full'')) of
                    (Inr urls, Inr fetcher_type, Inr extract_type) \<Rightarrow>
                      (case first_ten urls of
                         Inl e \<Rightarrow> (Inl e, s)
                       | Inr us \<Rightarrow>
                           (case batch ev s us fetcher_type extract_type [] of
                              (Inl e, s') \<Rightarrow> (Inl e, s')
                            | (Inr results, s') \<Rightarrow>
                                (Inr (Response 200 (Results_doc results)), s')))
                  | _ \<Rightarrow> (Inl AttributeError, s))
               else (Inr (Response 404 (Error_doc ''Not found'')), s)))"

text \<open>
  The fetcher that \<open>fetcher_type\<close> names returned the page \<open>pg\<close> for \<open>u\<close> (and did not
  raise).
\<close>

definition fetched :: "env \<Rightarrow> nat \<Rightarrow> json \<Rightarrow> json \<Rightarrow> page \<Rightarrow> bool" where
  "fetched ev n u fetcher_type pg \<longleftrightarrow>
     fetcher_type = JStr ''basic'' \<and> Fetcher_get ev n u = Inr pg \<or>
     fetcher_type = JStr ''stealthy'' \<and> StealthyFetcher_fetch ev n u = Inr pg \<or>
     fetcher_type = JStr ''playwright'' \<and> PlayWrightFetcher_fetch ev n u = Inr pg"


section \<open>A concrete world\<close>

text \<open>
  One world and a few requests on which the definitions are evaluated: a page of sixty
  elements with texts of 150 characters and 6000 characters of text, reachable at one
  address by the basic fetcher; a stealthy fetcher that returns an empty page; a
  PlayWright fetcher that cannot be imported.
\<close>

definition sample_element :: element where
  "sample_element =
     \<lparr>el_text = Some (replicate 150 CHR ''x''),
      el_attrib = Some [(''href'', ''/venues''), (''src'', ''/a.png''),
                        (''alt'', replicate 120 CHR ''y'')],
      el_str = ''<a>''\<rparr>"

definition sample_page :: page where
  "sample_page =
     \<lparr>page_truthy = True,
      css = (\<lambda>sel. if sel = JStr ''a[''
                   then Inl (PyException ''SelectorSyntaxError'' ''bad selector'')
                   else Inr (replicate 60 sample_element)),
      get_all_text = Some (Inr (replicate 6000 CHR ''t'')),
      page_body = Some ''<html></html>''\<rparr>"

definition sample_url :: json where
  "sample_url = JStr ''https://example.com''"

definition sample_env :: env where
  "sample_env =
     \<lparr>Fetcher_get = (\<lambda>n u. if u = JStr ''https://example.com'' then Inr sample_page
                             else Inl (PyException ''ConnectionError'' ''no route to host'')),
      StealthyFetcher_fetch = (\<lambda>n u. Inr (sample_page\<lparr>page_truthy := False\<rparr>)),
      PlayWrightFetcher_fetch =
        (\<lambda>n u. Inl (PyException ''ImportError'' ''cannot import name PlayWrightFetcher'')),
      now_isoformat = (\<lambda>n. ''2024-05-01T10:00:00''),
      elapsed_ms = (\<lambda>n. 12.5),
      str_of = (\<lambda>v. ''None''),
      importable = \<lparr>has_Fetcher = True, has_StealthyFetcher = True,
                     has_PlayWrightFetcher = False, has_ScraplingMCPServer = False,
                     scrapling_version = Some None\<rparr>,
      uptime_seconds = 0,
      python_version = ''3.11.4'',
      UI_HTML = ''<!DOCTYPE html>''\<rparr>"

definition sample_server :: server where
  "sample_server = \<lparr>SCRAPE_HISTORY = [], scrapes_run = 0\<rparr>"

definition past_result :: "string \<Rightarrow> scrape_result" where
  "past_result u =
     \<lparr>success = False, url = JStr u, fetcher = JStr ''stealthy'',
      timestamp = ''2024-05-01T09:00:00'', data = None,
      error = Some ''Page returned empty response'', timing_ms = 3\<rparr>"

definition busy_server :: server where
  "busy_server =
     \<lparr>SCRAPE_HISTORY = [past_result ''a'', past_result ''b'', past_result ''c''],
      scrapes_run = 3\<rparr>"


definition no_url_request :: post_request where
  "no_url_request =
     \<lparr>post_path = ''/api/scrape'', content_length = Some ''400'',
      body = Document (JDict [(''fetcher'', JStr ''basic''), (''url'', JStr [])])\<rparr>"

section \<open>Basic facts\<close>

lemma and_then_Inr [simp]: "and_then (Inr x) f = f x"
  by (simp add: and_then_def)

lemma and_then_Inl [simp]: "and_then (Inl e) f = Inl e"
  by (simp add: and_then_def)

lemma and_then_eq_Inr: "and_then m f = Inr y \<longleftrightarrow> (\<exists>x. m = Inr x \<and> f x = Inr y)"
  by (cases m) simp_all

text \<open>
  What \<^const>\<open>py_int\<close> refuses, as \<^verbatim>\<open>int()\<close> does: a literal of more than 4300 digits, and a
  string that starts with one of the separators 28 to 31, which \<^verbatim>\<open>str.strip()\<close> would
  remove.
\<close>

lemma filter_dropWhile_disjoint:
  "(\<And>x. Q x \<Longrightarrow> \<not> P x) \<Longrightarrow> filter P (dropWhile Q xs) = filter P xs"
  by (induction xs) auto

lemma digit_not_int_space: "is_int_space c \<Longrightarrow> \<not> is_digit c"
  by (auto simp: is_int_space_def is_digit_def)

lemma filter_digit_int_strip: "filter is_digit (int_strip s) = filter is_digit s"
proof -
  have "filter is_digit (int_strip s) =
      rev (filter is_digit (dropWhile is_int_space (rev (dropWhile is_int_space s))))"
    by (simp add: int_strip_def rev_filter)
  also have "\<dots> = rev (filter is_digit (rev (dropWhile is_int_space s)))"
    by (simp add: filter_dropWhile_disjoint digit_not_int_space)
  also have "\<dots> = filter is_digit (dropWhile is_int_space s)"
    by (simp add: rev_filter [symmetric])
  also have "\<dots> = filter is_digit s"
    by (simp add: filter_dropWhile_disjoint digit_not_int_space)
  finally show ?thesis .
qed

lemma py_int_digit_cap:
  assumes "max_str_digits < length (filter is_digit s)"
  shows "py_int s = Inl ValueError"
proof -
  let ?t = "int_strip s"
  have t: "max_str_digits < length (filter is_digit ?t)"
    using assms by (simp add: filter_digit_int_strip)
  have u: "\<And>x. max_str_digits < length (filter is_digit x) \<Longrightarrow> unsigned x = None"
    by (auto simp: unsigned_def split: list.splits)
  show ?thesis
  proof (cases ?t)
    case Nil
    then show ?thesis by (simp add: py_int_def)
  next
    case (Cons c cs)
    have "\<not> is_digit c \<Longrightarrow> max_str_digits < length (filter is_digit cs)"
      using t Cons by simp
    moreover have "\<not> is_digit CHR ''-''" "\<not> is_digit CHR ''+''"
      by (simp_all add: is_digit_def)
    ultimately show ?thesis
      using t Cons u by (auto simp: py_int_def Let_def)
  qed
qed

lemma dropWhile_snoc_keep: "\<not> P c \<Longrightarrow> \<exists>ys. dropWhile P (xs @ [c]) = ys @ [c]"
  by (induction xs) auto

lemma int_strip_Cons:
  assumes "\<not> is_int_space c"
  shows "\<exists>cs. int_strip (c # s) = c # cs"
proof -
  obtain ys where "dropWhile is_int_space (rev s @ [c]) = ys @ [c]"
    using assms dropWhile_snoc_keep [of is_int_space c "rev s"] by blast
  with assms show ?thesis
    by (simp add: int_strip_def)
qed

lemma py_int_separator:
  assumes "of_char c \<in> {28, 29, 30, 31 :: nat}"
  shows "py_int (c # s) = Inl ValueError"
proof -
  have "\<not> is_int_space c" using assms by (auto simp: is_int_space_def)
  then obtain cs where cs: "int_strip (c # s) = c # cs"
    using int_strip_Cons by blast
  have "\<not> is_digit c" "c \<noteq> CHR ''-''" "c \<noteq> CHR ''+''"
    using assms by (auto simp: is_digit_def)
  then show ?thesis
    by (simp add: py_int_def cs unsigned_def)
qed

text \<open>A body on which \<^verbatim>\<open>json.loads\<close> raises leaves \<^const>\<open>do_POST\<close> with that error.\<close>

lemma do_POST_loads_raises:
  assumes "length_of (content_length rq) = Inr n" and "0 < n" and "body rq = Loads_raises e"
  shows "do_POST ev s rq = (Inl e, s)"
  using assms by (simp add: do_POST_def)


text \<open>
  What \<^const>\<open>run_scrape\<close> returns and leaves behind, by the way its \<^verbatim>\<open>try\<close> block ended.
  Only the unknown fetcher leaves the history as it was.
\<close>

lemma run_scrape_result:
  "run_scrape ev s u ft sel et = (r, s') \<Longrightarrow>
     url r = u \<and> fetcher r = ft \<and> scrapes_run s' = Suc (scrapes_run s) \<and>
     (case scrape_attempt ev (scrapes_run s) u ft sel et of
        Inl e \<Rightarrow> \<not> success r \<and> data r = None
                  \<and> error r = Some (exc_type e @ '': '' @ exc_str e)
                  \<and> SCRAPE_HISTORY s' = SCRAPE_HISTORY s @ [r]
      | Inr Unknown_fetcher \<Rightarrow> \<not> success r \<and> data r = None
                  \<and> error r = Some (''Unknown fetcher type: '' @ py_str ev ft)
                  \<and> SCRAPE_HISTORY s' = SCRAPE_HISTORY s
      | Inr Empty_page \<Rightarrow> \<not> success r \<and> data r = None
                  \<and> error r = Some ''Page returned empty response''
                  \<and> SCRAPE_HISTORY s' = SCRAPE_HISTORY s @ [r]
      | Inr (Extracted d) \<Rightarrow> success r \<and> data r = Some d \<and> error r = None
                  \<and> SCRAPE_HISTORY s' = SCRAPE_HISTORY s @ [r])"
  by (auto simp: run_scrape_def Let_def split: sum.splits attempt.splits)

lemma scrape_attempt_unknown:
  "ft \<noteq> JStr ''basic'' \<Longrightarrow> ft \<noteq> JStr ''stealthy'' \<Longrightarrow> ft \<noteq> JStr ''playwright'' \<Longrightarrow>
     scrape_attempt ev n u ft sel et = Inr Unknown_fetcher"
  by (simp add: scrape_attempt_def)

lemma scrape_attempt_fetched:
  "fetched ev n u ft pg \<Longrightarrow> scrape_attempt ev n u ft sel et = shape sel et pg"
  by (auto simp: fetched_def scrape_attempt_def)

text \<open>The two ways in which the \<^verbatim>\<open>try\<close> block raises: the fetcher does, or the extraction does.\<close>

lemma scrape_attempt_fetch_raises:
  assumes "ft = JStr ''basic'' \<and> Fetcher_get ev n u = Inl e \<or>
           ft = JStr ''stealthy'' \<and> StealthyFetcher_fetch ev n u = Inl e \<or>
           ft = JStr ''playwright'' \<and> PlayWrightFetcher_fetch ev n u = Inl e"
  shows "scrape_attempt ev n u ft sel et = Inl e"
  using assms by (auto simp: scrape_attempt_def)

lemma scrape_attempt_extract_raises:
  assumes "fetched ev n u ft pg" and "page_truthy pg" and "extract_data pg sel et = Inl e"
  shows "scrape_attempt ev n u ft sel et = Inl e"
  using assms by (simp add: scrape_attempt_fetched shape_def)

text \<open>The calls into the page whose exception the extraction passes on, mode by mode.\<close>

lemma extract_links_raises:
  "css pg (JStr ''a[href]'') = Inl e \<Longrightarrow> extract_data pg sel (JStr ''links'') = Inl e"
  by (simp add: extract_data_def)

lemma extract_images_raises:
  "css pg (JStr ''img'') = Inl e \<Longrightarrow> extract_data pg sel (JStr ''images'') = Inl e"
  by (simp add: extract_data_def)

lemma extract_text_raises:
  "get_all_text pg = Some (Inl e) \<Longrightarrow> extract_data pg sel (JStr ''text'') = Inl e"
  by (simp add: extract_data_def)

lemma extract_css_raises:
  "truthy sel \<Longrightarrow> css pg sel = Inl e \<Longrightarrow> extract_data pg sel (JStr ''css'') = Inl e"
  by (simp add: extract_data_def)

lemma extract_full_raises_title:
  "css pg (JStr ''title'') = Inl e \<Longrightarrow> extract_data pg sel (JStr ''full'') = Inl e"
  by (simp add: extract_data_def)

lemma extract_full_raises_text:
  "css pg (JStr ''title'') = Inr ts \<Longrightarrow> get_all_text pg = Some (Inl e) \<Longrightarrow>
     extract_data pg sel (JStr ''full'') = Inl e"
  by (simp add: extract_data_def)

lemma extract_full_raises_links:
  "css pg (JStr ''title'') = Inr ts \<Longrightarrow>
   get_all_text pg = None \<or> get_all_text pg = Some (Inr txt) \<Longrightarrow>
   css pg (JStr ''a[href]'') = Inl e \<Longrightarrow>
     extract_data pg sel (JStr ''full'') = Inl e"
  by (auto simp: extract_data_def)

lemma extract_full_raises_imgs:
  "css pg (JStr ''title'') = Inr ts \<Longrightarrow>
   get_all_text pg = None \<or> get_all_text pg = Some (Inr txt) \<Longrightarrow>
   css pg (JStr ''a[href]'') = Inr ls \<Longrightarrow> css pg (JStr ''img'') = Inl e \<Longrightarrow>
     extract_data pg sel (JStr ''full'') = Inl e"
  by (auto simp: extract_data_def)


lemma extraction_raises:
  assumes "extract_data pg sel et = Inl e \<or>
      et = JStr ''full'' \<and> css pg (JStr ''title'') = Inl e \<or>
      et = JStr ''full'' \<and> (\<exists>ts. css pg (JStr ''title'') = Inr ts) \<and>
        get_all_text pg = Some (Inl e) \<or>
      et = JStr ''full'' \<and> (\<exists>ts. css pg (JStr ''title'') = Inr ts) \<and>
        (get_all_text pg = None \<or> (\<exists>txt. get_all_text pg = Some (Inr txt))) \<and>
        css pg (JStr ''a[href]'') = Inl e \<or>
      et = JStr ''full'' \<and> (\<exists>ts. css pg (JStr ''title'') = Inr ts) \<and>
        (get_all_text pg = None \<or> (\<exists>txt. get_all_text pg = Some (Inr txt))) \<and>
        (\<exists>ls. css pg (JStr ''a[href]'') = Inr ls) \<and> css pg (JStr ''img'') = Inl e \<or>
      et = JStr ''links'' \<and> css pg (JStr ''a[href]'') = Inl e \<or>
      et = JStr ''images'' \<and> css pg (JStr ''img'') = Inl e \<or>
      et = JStr ''text'' \<and> get_all_text pg = Some (Inl e) \<or>
      et = JStr ''css'' \<and> truthy sel \<and> css pg sel = Inl e"
  shows "extract_data pg sel et = Inl e"
  using assms
  by (elim disjE conjE exE)
    (simp_all add: extract_links_raises extract_images_raises extract_text_raises
      extract_css_raises extract_full_raises_title extract_full_raises_text
      extract_full_raises_links extract_full_raises_imgs)

lemma scrape_attempt_extracted:
  assumes "scrape_attempt ev n u ft sel et = Inr (Extracted d)"
  shows "\<exists>pg. fetched ev n u ft pg \<and> page_truthy pg \<and> extract_data pg sel et = Inr d"
proof -
  from assms obtain pg
    where f: "fetched ev n u ft pg" and sh: "shape sel et pg = Inr (Extracted d)"
    by (auto simp: scrape_attempt_def fetched_def and_then_eq_Inr split: if_splits)
  from sh have "page_truthy pg \<and> extract_data pg sel et = Inr d"
    by (auto simp: shape_def and_then_eq_Inr split: if_splits)
  with f show ?thesis by blast
qed

lemma run_scrape_success:
  assumes "run_scrape ev s u ft sel et = (r, s')" and "success r"
  shows "\<exists>pg d. fetched ev (scrapes_run s) u ft pg \<and> page_truthy pg \<and>
           extract_data pg sel et = Inr d \<and> data r = Some d"
proof -
  from run_scrape_result [OF assms(1)] assms(2)
  obtain d where "scrape_attempt ev (scrapes_run s) u ft sel et = Inr (Extracted d)"
    and "data r = Some d"
    by (auto split: sum.splits attempt.splits)
  with scrape_attempt_extracted show ?thesis by blast
qed

subsection \<open>The shapes of the extracted data\<close>

lemma extract_links:
  assumes "extract_data pg sel (JStr ''links'') = Inr d"
  shows "\<exists>ls. d = [status_item, (''links'', FLinks ls)] \<and> length ls \<le> 50 \<and>
           (\<forall>l \<in> set ls. length (link_text l) \<le> 100)"
  using assms by (auto simp: extract_data_def and_then_eq_Inr)

lemma extract_images:
  assumes "extract_data pg sel (JStr ''images'') = Inr d"
  shows "\<exists>is. d = [status_item, (''images'', FImages is)] \<and> length is \<le> 50 \<and>
           (\<forall>i \<in> set is. length (alt i) \<le> 100)"
  using assms by (auto simp: extract_data_def and_then_eq_Inr)

lemma extract_css:
  assumes "extract_data pg sel (JStr ''css'') = Inr d" and "truthy sel"
  shows "\<exists>es. d = [status_item, (''elements'', FElements es)] \<and> length es \<le> 30 \<and>
           (\<forall>e \<in> set es. length e \<le> 200)"
  using assms by (auto simp: extract_data_def and_then_eq_Inr)

lemma extract_text:
  assumes "extract_data pg sel (JStr ''text'') = Inr d"
  shows "\<exists>t. d = [status_item, (''text'', FStr t)] \<and> length t \<le> 5000"
  using assms by (auto simp: extract_data_def and_then_eq_Inr split: option.splits)

lemma extract_other:
  assumes "et \<notin> {JStr ''full'', JStr ''links'', JStr ''images'', JStr ''text'', JStr ''css''}
           \<or> et = JStr ''css'' \<and> \<not> truthy sel"
  shows "extract_data pg sel et = Inr [status_item]"
  using assms by (auto simp: extract_data_def)

subsection \<open>The batch loop\<close>



subsection \<open>The history request\<close>

lemma do_GET_history:
  assumes "get_path rq = ''/api/history''" and "limit_of (get_params rq) = Inr n"
  shows "do_GET ev s rq =
           (Inr (Response 200 (History_doc (slice_from (SCRAPE_HISTORY s) (- n))
              (length (SCRAPE_HISTORY s)))), s)"
  using assms by (simp add: do_GET_def)

subsection \<open>Evaluations in the concrete world\<close>



lemma py_int_400: "py_int ''400'' = Inr 400"
  by (simp add: py_int_def int_strip_def is_int_space_def unsigned_def max_str_digits_def
      is_digit_def digit_val_def)


lemma sample_down_fetch:
  "Fetcher_get sample_env (scrapes_run sample_server) (JStr ''https://down.example'')
     = Inl (PyException ''ConnectionError'' ''no route to host'')"
  by (simp add: sample_env_def)

lemma sample_bad_selector:
  "css sample_page (JStr ''a['') = Inl (PyException ''SelectorSyntaxError'' ''bad selector'')"
  by (simp add: sample_page_def)

lemma sample_fetched:
  "fetched sample_env (scrapes_run sample_server) sample_url (JStr ''basic'') sample_page"
  by (simp add: fetched_def sample_env_def sample_url_def)

lemma sample_attempt:
  "scrape_attempt sample_env 0 sample_url (JStr ''basic'') sel et =
     and_then (extract_data sample_page sel et) (\<lambda>d. Inr (Extracted d))"
  by (simp add: scrape_attempt_def sample_env_def sample_url_def shape_def sample_page_def)

lemma sample_success:
  assumes "extract_data sample_page sel et = Inr d"
  shows "success (fst (run_scrape sample_env sample_server sample_url (JStr ''basic'') sel et))"
  using assms by (simp add: run_scrape_def Let_def sample_server_def sample_attempt)

lemma sample_extract_links:
  "extract_data sample_page JNull (JStr ''links'') =
     Inr [status_item, (''links'', FLinks (replicate 50 (Link ''/venues'' (replicate 100 CHR ''x''))))]"
  by (simp add: extract_data_def sample_page_def sample_element_def text_of_def attrib_get_def)

lemma sample_extract_images:
  "extract_data sample_page JNull (JStr ''images'') =
     Inr [status_item, (''images'', FImages (replicate 50 (Image ''/a.png'' (replicate 100 CHR ''y''))))]"
  by (simp add: extract_data_def sample_page_def sample_element_def text_of_def attrib_get_def)

lemma sample_extract_css:
  "extract_data sample_page (JStr ''.vendor-card'') (JStr ''css'') =
     Inr [status_item, (''elements'', FElements (replicate 30 (replicate 150 CHR ''x'')))]"
  by (simp add: extract_data_def sample_page_def sample_element_def text_of_def)

lemma sample_extract_text:
  "extract_data sample_page JNull (JStr ''text'') =
     Inr [status_item, (''text'', FStr (replicate 5000 CHR ''t''))]"
  by (simp add: extract_data_def sample_page_def)

section \<open>The scrape operation never raises\<close>

text \<open>
  C1. For every input (url, fetcher_type, selectors, extract_type) the scrape operation
  returns a result record. Whenever the fetcher that \<open>fetcher_type\<close> names raises an
  exception, and whenever the extraction from the fetched page does (a call of \<^verbatim>\<open>css\<close> or
  of \<^verbatim>\<open>get_all_text\<close> that the extraction mode makes), the result has \<open>success = False\<close>,
  no data, and as error the string made of the type name and the message of that
  exception.
\<close>

theorem run_scrape_never_raises:
  "\<exists>r s'. run_scrape ev s u ft sel et = (r, s') \<and>
     (\<forall>e.
        ft = JStr ''basic'' \<and> Fetcher_get ev (scrapes_run s) u = Inl e \<or>
        ft = JStr ''stealthy'' \<and> StealthyFetcher_fetch ev (scrapes_run s) u = Inl e \<or>
        ft = JStr ''playwright'' \<and> PlayWrightFetcher_fetch ev (scrapes_run s) u = Inl e
        \<longrightarrow> success r = False \<and> data r = None \<and>
            error r = Some (exc_type e @ '': '' @ exc_str e)) \<and>
     (\<forall>pg e.
        fetched ev (scrapes_run s) u ft pg \<and> page_truthy pg \<and>
          (extract_data pg sel et = Inl e \<or>
           et = JStr ''full'' \<and> css pg (JStr ''title'') = Inl e \<or>
           et = JStr ''full'' \<and> (\<exists>ts. css pg (JStr ''title'') = Inr ts) \<and>
             get_all_text pg = Some (Inl e) \<or>
           et = JStr ''full'' \<and> (\<exists>ts. css pg (JStr ''title'') = Inr ts) \<and>
             (get_all_text pg = None \<or> (\<exists>txt. get_all_text pg = Some (Inr txt))) \<and>
             css pg (JStr ''a[href]'') = Inl e \<or>
           et = JStr ''full'' \<and> (\<exists>ts. css pg (JStr ''title'') = Inr ts) \<and>
             (get_all_text pg = None \<or> (\<exists>txt. get_all_text pg = Some (Inr txt))) \<and>
             (\<exists>ls. css pg (JStr ''a[href]'') = Inr ls) \<and> css pg (JStr ''img'') = Inl e \<or>
           et = JStr ''links'' \<and> css pg (JStr ''a[href]'') = Inl e \<or>
           et = JStr ''images'' \<and> css pg (JStr ''img'') = Inl e \<or>
           et = JStr ''text'' \<and> get_all_text pg = Some (Inl e) \<or>
           et = JStr ''css'' \<and> truthy sel \<and> css pg sel = Inl e)
        \<longrightarrow> success r = False \<and> data r = None \<and>
            error r = Some (exc_type e @ '': '' @ exc_str e))"
proof -
  let ?n = "scrapes_run s"
  obtain r s' where rs: "run_scrape ev s u ft sel et = (r, s')"
    by (cases "run_scrape ev s u ft sel et")
  have caught: "success r = False \<and> data r = None \<and>
      error r = Some (exc_type e @ '': '' @ exc_str e)"
    if "scrape_attempt ev ?n u ft sel et = Inl e" for e
    using run_scrape_result [OF rs] that by simp
  show ?thesis
  proof (intro exI conjI allI impI)
    show "run_scrape ev s u ft sel et = (r, s')" by (rule rs)
  next
    fix e
    assume "ft = JStr ''basic'' \<and> Fetcher_get ev ?n u = Inl e \<or>
        ft = JStr ''stealthy'' \<and> StealthyFetcher_fetch ev ?n u = Inl e \<or>
        ft = JStr ''playwright'' \<and> PlayWrightFetcher_fetch ev ?n u = Inl e"
    then have "scrape_attempt ev ?n u ft sel et = Inl e"
      by (rule scrape_attempt_fetch_raises)
    then show "success r = False" "data r = None"
      "error r = Some (exc_type e @ '': '' @ exc_str e)"
      using caught by simp_all
  next
    fix pg e
    assume a: "fetched ev ?n u ft pg \<and> page_truthy pg \<and>
          (extract_data pg sel et = Inl e \<or>
           et = JStr ''full'' \<and> css pg (JStr ''title'') = Inl e \<or>
           et = JStr ''full'' \<and> (\<exists>ts. css pg (JStr ''title'') = Inr ts) \<and>
             get_all_text pg = Some (Inl e) \<or>
           et = JStr ''full'' \<and> (\<exists>ts. css pg (JStr ''title'') = Inr ts) \<and>
             (get_all_text pg = None \<or> (\<exists>txt. get_all_text pg = Some (Inr txt))) \<and>
             css pg (JStr ''a[href]'') = Inl e \<or>
           et = JStr ''full'' \<and> (\<exists>ts. css pg (JStr ''title'') = Inr ts) \<and>
             (get_all_text pg = None \<or> (\<exists>txt. get_all_text pg = Some (Inr txt))) \<and>
             (\<exists>ls. css pg (JStr ''a[href]'') = Inr ls) \<and> css pg (JStr ''img'') = Inl e \<or>
           et = JStr ''links'' \<and> css pg (JStr ''a[href]'') = Inl e \<or>
           et = JStr ''images'' \<and> css pg (JStr ''img'') = Inl e \<or>
           et = JStr ''text'' \<and> get_all_text pg = Some (Inl e) \<or>
           et = JStr ''css'' \<and> truthy sel \<and> css pg sel = Inl e)"
    have "extract_data pg sel et = Inl e"
      by (rule extraction_raises) (rule a [THEN conjunct2, THEN conjunct2])
    with a [THEN conjunct1] a [THEN conjunct2, THEN conjunct1]
    have "scrape_attempt ev ?n u ft sel et = Inl e"
      by (rule scrape_attempt_extract_raises)
    then show "success r = False" "data r = None"
      "error r = Some (exc_type e @ '': '' @ exc_str e)"
      using caught by simp_all
  qed
qed

theorem run_scrape_never_raises_witness:
  "Fetcher_get sample_env (scrapes_run sample_server) (JStr ''https://down.example'')
     = Inl (PyException ''ConnectionError'' ''no route to host'') \<and>
   error (fst (run_scrape sample_env sample_server (JStr ''https://down.example'')
       (JStr ''basic'') JNull (JStr ''full''))) = Some ''ConnectionError: no route to host'' \<and>
   fetched sample_env (scrapes_run sample_server) sample_url (JStr ''basic'') sample_page \<and>
   page_truthy sample_page \<and>
   css sample_page (JStr ''a['') = Inl (PyException ''SelectorSyntaxError'' ''bad selector'') \<and>
   error (fst (run_scrape sample_env sample_server sample_url
       (JStr ''basic'') (JStr ''a['') (JStr ''css''))) = Some ''SelectorSyntaxError: bad selector''"
proof -
  let ?down = "PyException ''ConnectionError'' ''no route to host''"
  let ?bad = "PyException ''SelectorSyntaxError'' ''bad selector''"
  have t: "page_truthy sample_page" by (simp add: sample_page_def)
  obtain r s' where r: "run_scrape sample_env sample_server (JStr ''https://down.example'')
        (JStr ''basic'') JNull (JStr ''full'') = (r, s')"
    and f: "\<forall>e. JStr ''basic'' = JStr ''basic'' \<and>
          Fetcher_get sample_env (scrapes_run sample_server) (JStr ''https://down.example'') = Inl e \<or>
        JStr ''basic'' = JStr ''stealthy'' \<and>
          StealthyFetcher_fetch sample_env (scrapes_run sample_server) (JStr ''https://down.example'') = Inl e \<or>
        JStr ''basic'' = JStr ''playwright'' \<and>
          PlayWrightFetcher_fetch sample_env (scrapes_run sample_server) (JStr ''https://down.example'') = Inl e
        \<longrightarrow> success r = False \<and> data r = None \<and>
            error r = Some (exc_type e @ '': '' @ exc_str e)"
    using run_scrape_never_raises [of sample_env sample_server "JStr ''https://down.example''"
      "JStr ''basic''" JNull "JStr ''full''"]
    by (elim exE conjE) (rule that)
  have "error r = Some (exc_type ?down @ '': '' @ exc_str ?down)"
    using f [rule_format, of ?down] sample_down_fetch by simp
  with r have a: "error (fst (run_scrape sample_env sample_server (JStr ''https://down.example'')
       (JStr ''basic'') JNull (JStr ''full''))) = Some ''ConnectionError: no route to host''"
    by simp
  obtain r2 s2 where r2: "run_scrape sample_env sample_server sample_url
        (JStr ''basic'') (JStr ''a['') (JStr ''css'') = (r2, s2)"
    and x: "\<forall>pg e.
        fetched sample_env (scrapes_run sample_server) sample_url (JStr ''basic'') pg \<and>
        page_truthy pg \<and>
          (extract_data pg (JStr ''a['') (JStr ''css'') = Inl e \<or>
           JStr ''css'' = JStr ''full'' \<and> css pg (JStr ''title'') = Inl e \<or>
           JStr ''css'' = JStr ''full'' \<and> (\<exists>ts. css pg (JStr ''title'') = Inr ts) \<and>
             get_all_text pg = Some (Inl e) \<or>
           JStr ''css'' = JStr ''full'' \<and> (\<exists>ts. css pg (JStr ''title'') = Inr ts) \<and>
             (get_all_text pg = None \<or> (\<exists>txt. get_all_text pg = Some (Inr txt))) \<and>
             css pg (JStr ''a[href]'') = Inl e \<or>
           JStr ''css'' = JStr ''full'' \<and> (\<exists>ts. css pg (JStr ''title'') = Inr ts) \<and>
             (get_all_text pg = None \<or> (\<exists>txt. get_all_text pg = Some (Inr txt))) \<and>
             (\<exists>ls. css pg (JStr ''a[href]'') = Inr ls) \<and> css pg (JStr ''img'') = Inl e \<or>
           JStr ''css'' = JStr ''links'' \<and> css pg (JStr ''a[href]'') = Inl e \<or>
           JStr ''css'' = JStr ''images'' \<and> css pg (JStr ''img'') = Inl e \<or>
           JStr ''css'' = JStr ''text'' \<and> get_all_text pg = Some (Inl e) \<or>
           JStr ''css'' = JStr ''css'' \<and> truthy (JStr ''a['') \<and> css pg (JStr ''a['') = Inl e)
        \<longrightarrow> success r2 = False \<and> data r2 = None \<and>
            error r2 = Some (exc_type e @ '': '' @ exc_str e)"
    using run_scrape_never_raises [of sample_env sample_server sample_url
      "JStr ''basic''" "JStr ''a[''" "JStr ''css''"]
    by (elim exE conjE) (rule that)
  have "error r2 = Some (exc_type ?bad @ '': '' @ exc_str ?bad)"
    using x [rule_format, of sample_page ?bad] sample_fetched t sample_bad_selector by simp
  with r2 have b: "error (fst (run_scrape sample_env sample_server sample_url
       (JStr ''basic'') (JStr ''a['') (JStr ''css''))) = Some ''SelectorSyntaxError: bad selector''"
    by simp
  from a b sample_down_fetch sample_fetched t sample_bad_selector show ?thesis by simp
qed

section \<open>The history and the unknown fetcher\<close>

text \<open>
  C2. The claim is that every result of the scrape operation is appended to the history
  before it is returned, failing ones included. Evaluated on the empty history with the
  fetcher name \<^verbatim>\<open>curl\<close>, the operation returns a result that the history does not
  receive: the history is still empty afterwards, and the timing is never taken.
\<close>

theorem unknown_fetcher_skips_history:
  "run_scrape sample_env sample_server (JStr ''https://example.com'') (JStr ''curl'') JNull
       (JStr ''full'')
     = (\<lparr>success = False, url = JStr ''https://example.com'', fetcher = JStr ''curl'',
          timestamp = ''2024-05-01T10:00:00'', data = None,
          error = Some ''Unknown fetcher type: curl'', timing_ms = 0\<rparr>,
        \<lparr>SCRAPE_HISTORY = [], scrapes_run = 1\<rparr>)"
  by (simp add: run_scrape_def scrape_attempt_def sample_env_def sample_server_def py_str_def)

section \<open>Requests that leave the handlers with an error\<close>

text \<open>
  C3. The claim is that every bad request is answered with a structured error response
  and that the handlers never raise. A history request whose limit is \<^verbatim>\<open>abc\<close> ends in
  \<^verbatim>\<open>ValueError\<close>, and a batch request whose list of URLs is \<^verbatim>\<open>[5]\<close> ends in
  \<^verbatim>\<open>AttributeError\<close>; in both nothing is sent.
\<close>

theorem bad_request_raises:
  "do_GET ev s \<lparr>get_path = ''/api/history'', get_params = [(''limit'', [''abc''])]\<rparr>
     = (Inl ValueError, s) \<and>
   do_POST ev s \<lparr>post_path = ''/api/batch-scrape'', content_length = Some ''13'',
                  body = Document (JDict [(''urls'', JList [JInt 5])])\<rparr>
     = (Inl AttributeError, s)"
  by (simp add: do_GET_def do_POST_def limit_of_def length_of_def py_int_def int_strip_def
       is_int_space_def unsigned_def max_str_digits_def is_digit_def digit_val_def)

section \<open>The batch operation\<close>



section \<open>The truncation limits of the extraction\<close>

text \<open>
  C5. Whenever a scrape succeeds, the data of its mode are within the limits: mode
  \<^verbatim>\<open>links\<close> gives at most 50 links, each text of at most 100 characters; mode \<^verbatim>\<open>images\<close>
  at most 50 images, each alt text of at most 100 characters; mode \<^verbatim>\<open>css\<close> (with a
  selector) at most 30 elements of at most 200 characters each; mode \<^verbatim>\<open>text\<close> at most
  5000 characters of text.
\<close>

theorem extraction_limits:
  assumes "run_scrape ev s u ft sel et = (r, s')" and "success r"
  shows "(et = JStr ''links'' \<longrightarrow>
            (\<exists>ls. data r = Some [(''status'', FStr ''success''), (''links'', FLinks ls)] \<and>
               length ls \<le> 50 \<and> (\<forall>l \<in> set ls. length (link_text l) \<le> 100))) \<and>
         (et = JStr ''images'' \<longrightarrow>
            (\<exists>is. data r = Some [(''status'', FStr ''success''), (''images'', FImages is)] \<and>
               length is \<le> 50 \<and> (\<forall>i \<in> set is. length (alt i) \<le> 100))) \<and>
         (et = JStr ''css'' \<and> truthy sel \<longrightarrow>
            (\<exists>es. data r = Some [(''status'', FStr ''success''), (''elements'', FElements es)] \<and>
               length es \<le> 30 \<and> (\<forall>e \<in> set es. length e \<le> 200))) \<and>
         (et = JStr ''text'' \<longrightarrow>
            (\<exists>t. data r = Some [(''status'', FStr ''success''), (''text'', FStr t)] \<and>
               length t \<le> 5000))"
proof -
  from run_scrape_success [OF assms] obtain pg d
    where d: "extract_data pg sel et = Inr d" "data r = Some d" by blast
  show ?thesis
    using d extract_links [of pg sel d] extract_images [of pg sel d]
      extract_css [of pg sel d] extract_text [of pg sel d]
    by (auto simp: status_item_def)
qed

theorem extraction_limits_witness:
  "(\<exists>ls. data (fst (run_scrape sample_env sample_server sample_url (JStr ''basic'') JNull
                      (JStr ''links'')))
           = Some [(''status'', FStr ''success''), (''links'', FLinks ls)] \<and>
         length ls \<le> 50 \<and> (\<forall>l \<in> set ls. length (link_text l) \<le> 100)) \<and>
   (\<exists>is. data (fst (run_scrape sample_env sample_server sample_url (JStr ''basic'') JNull
                      (JStr ''images'')))
           = Some [(''status'', FStr ''success''), (''images'', FImages is)] \<and>
         length is \<le> 50 \<and> (\<forall>i \<in> set is. length (alt i) \<le> 100)) \<and>
   (\<exists>es. data (fst (run_scrape sample_env sample_server sample_url (JStr ''basic'')
                      (JStr ''.vendor-card'') (JStr ''css'')))
           = Some [(''status'', FStr ''success''), (''elements'', FElements es)] \<and>
         length es \<le> 30 \<and> (\<forall>e \<in> set es. length e \<le> 200)) \<and>
   (\<exists>t. data (fst (run_scrape sample_env sample_server sample_url (JStr ''basic'') JNull
                      (JStr ''text'')))
           = Some [(''status'', FStr ''success''), (''text'', FStr t)] \<and> length t \<le> 5000)"
proof -
  let ?run = "run_scrape sample_env sample_server sample_url (JStr ''basic'')"
  have pair: "\<And>sel et. ?run sel et = (fst (?run sel et), snd (?run sel et))" by simp
  note a = extraction_limits [OF pair sample_success [OF sample_extract_links]]
  note b = extraction_limits [OF pair sample_success [OF sample_extract_images]]
  note c = extraction_limits [OF pair sample_success [OF sample_extract_css]]
  note d = extraction_limits [OF pair sample_success [OF sample_extract_text]]
  have "truthy (JStr ''.vendor-card'')" by simp
  with a b c d show ?thesis by simp
qed

section \<open>The unknown fetcher\<close>

text \<open>
  C6. For every fetcher name other than \<^verbatim>\<open>basic\<close>, \<^verbatim>\<open>stealthy\<close> and \<^verbatim>\<open>playwright\<close>, the
  scrape operation returns a result with \<open>success = False\<close> and the error string
  \<^verbatim>\<open>Unknown fetcher type:\<close> followed by the name.
\<close>

theorem unknown_fetcher_error:
  assumes "name \<notin> {''basic'', ''stealthy'', ''playwright''}"
  shows "\<exists>r s'. run_scrape ev s u (JStr name) sel et = (r, s') \<and>
           success r = False \<and> data r = None \<and>
           error r = Some (''Unknown fetcher type: '' @ name)"
proof -
  obtain r s' where rs: "run_scrape ev s u (JStr name) sel et = (r, s')"
    by (cases "run_scrape ev s u (JStr name) sel et")
  have "scrape_attempt ev (scrapes_run s) u (JStr name) sel et = Inr Unknown_fetcher"
    using assms by (simp add: scrape_attempt_unknown)
  with run_scrape_result [OF rs] rs show ?thesis
    by (simp add: py_str_def)
qed

theorem unknown_fetcher_error_witness:
  "''wget'' \<notin> {''basic'', ''stealthy'', ''playwright''} \<and>
   (\<exists>r s'. run_scrape sample_env sample_server sample_url (JStr ''wget'') JNull (JStr ''full'')
              = (r, s') \<and>
           success r = False \<and> data r = None \<and> error r = Some ''Unknown fetcher type: wget'')"
proof -
  have h: "''wget'' \<notin> {''basic'', ''stealthy'', ''playwright''}" by simp
  from unknown_fetcher_error [OF h] show ?thesis using h by simp
qed

section \<open>The missing URL\<close>

text \<open>
  C7. A \<^verbatim>\<open>POST /api/scrape\<close> request whose JSON body has no \<^verbatim>\<open>url\<close> field or an empty one
  (a request without a body counts as the empty object) is answered with status 400 and
  the message \<^verbatim>\<open>URL is required\<close>, and the state, the history with it, is unchanged: the
  scrape operation is not run.
\<close>

theorem missing_url_is_400:
  assumes "post_path rq = ''/api/scrape''"
    and "length_of (content_length rq) = Inr n"
    and "0 < n \<longrightarrow> (\<exists>kvs. body rq = Document (JDict kvs) \<and>
           (map_of kvs ''url'' = None \<or> map_of kvs ''url'' = Some (JStr [])))"
  shows "do_POST ev s rq = (Inr (Response 400 (Error_doc ''URL is required'')), s)"
  using assms by (auto simp: do_POST_def)

theorem missing_url_is_400_witness:
  "post_path no_url_request = ''/api/scrape'' \<and>
   length_of (content_length no_url_request) = Inr 400 \<and>
   do_POST sample_env busy_server no_url_request
     = (Inr (Response 400 (Error_doc ''URL is required'')), busy_server)"
proof -
  have p: "post_path no_url_request = ''/api/scrape''"
    by (simp add: no_url_request_def)
  have l: "length_of (content_length no_url_request) = Inr 400"
    by (simp add: no_url_request_def length_of_def py_int_400)
  have b: "0 < (400::int) \<longrightarrow> (\<exists>kvs. body no_url_request = Document (JDict kvs) \<and>
           (map_of kvs ''url'' = None \<or> map_of kvs ''url'' = Some (JStr [])))"
    by (simp add: no_url_request_def)
  from missing_url_is_400 [OF p l b] p l show ?thesis by simp
qed

section \<open>Clearing and reading the history\<close>

text \<open>
  C8. After a \<^verbatim>\<open>GET /api/clear-history\<close> request, whatever the history held, a
  \<^verbatim>\<open>GET /api/history\<close> request that follows at once (with no limit or one that is an
  integer) returns the empty list and the total 0.
\<close>

theorem clear_then_history_is_empty:
  assumes "get_path clear = ''/api/clear-history''"
    and "get_path rq = ''/api/history''" and "limit_of (get_params rq) = Inr n"
  shows "\<exists>s1. do_GET ev s clear
                 = (Inr (Response 200 (Message_doc True ''History cleared'')), s1) \<and>
           do_GET ev s1 rq = (Inr (Response 200 (History_doc [] 0)), s1)"
proof -
  let ?s1 = "s\<lparr>SCRAPE_HISTORY := []\<rparr>"
  have "do_GET ev s clear = (Inr (Response 200 (Message_doc True ''History cleared'')), ?s1)"
    using assms(1) by (simp add: do_GET_def)
  moreover have "do_GET ev ?s1 rq = (Inr (Response 200 (History_doc [] 0)), ?s1)"
    using do_GET_history [OF assms(2,3), of ev ?s1] by (simp add: slice_from_def)
  ultimately show ?thesis by blast
qed

theorem clear_then_history_is_empty_witness:
  "limit_of [] = Inr 50 \<and>
   (\<exists>s1. do_GET sample_env busy_server \<lparr>get_path = ''/api/clear-history'', get_params = []\<rparr>
            = (Inr (Response 200 (Message_doc True ''History cleared'')), s1) \<and>
          do_GET sample_env s1 \<lparr>get_path = ''/api/history'', get_params = []\<rparr>
            = (Inr (Response 200 (History_doc [] 0)), s1))"
proof -
  have l: "limit_of (get_params \<lparr>get_path = ''/api/history'', get_params = []\<rparr>) = Inr 50"
    by (simp add: limit_of_def)
  from clear_then_history_is_empty [OF _ _ l,
      of "\<lparr>get_path = ''/api/clear-history'', get_params = []\<rparr>" sample_env busy_server]
  show ?thesis using l by simp
qed

section \<open>The extraction mode is not validated\<close>

text \<open>
  C9. When the fetcher returns a page that is not empty and the extraction mode is none of
  \<^verbatim>\<open>full\<close>, \<^verbatim>\<open>links\<close>, \<^verbatim>\<open>images\<close>, \<^verbatim>\<open>text\<close>, \<^verbatim>\<open>css\<close>, or is \<^verbatim>\<open>css\<close> with an empty or missing
  selector, the scrape still succeeds, and its data hold the status field alone.
\<close>

theorem extract_type_not_validated:
  assumes "fetched ev (scrapes_run s) u ft pg" and "page_truthy pg"
    and "et \<notin> {JStr ''full'', JStr ''links'', JStr ''images'', JStr ''text'', JStr ''css''}
         \<or> et = JStr ''css'' \<and> \<not> truthy sel"
  shows "\<exists>r s'. run_scrape ev s u ft sel et = (r, s') \<and> success r \<and> error r = None \<and>
           data r = Some [(''status'', FStr ''success'')]"
proof -
  obtain r s' where rs: "run_scrape ev s u ft sel et = (r, s')"
    by (cases "run_scrape ev s u ft sel et")
  have "scrape_attempt ev (scrapes_run s) u ft sel et = Inr (Extracted [status_item])"
    using assms by (simp add: scrape_attempt_fetched shape_def extract_other)
  with run_scrape_result [OF rs] rs show ?thesis
    by (simp add: status_item_def)
qed

theorem extract_type_not_validated_witness:
  "fetched sample_env (scrapes_run sample_server) sample_url (JStr ''basic'') sample_page \<and>
   page_truthy sample_page \<and>
   (\<exists>r s'. run_scrape sample_env sample_server sample_url (JStr ''basic'') JNull
              (JStr ''everything'') = (r, s') \<and>
            success r \<and> error r = None \<and> data r = Some [(''status'', FStr ''success'')]) \<and>
   (\<exists>r s'. run_scrape sample_env sample_server sample_url (JStr ''basic'') (JStr [])
              (JStr ''css'') = (r, s') \<and>
            success r \<and> error r = None \<and> data r = Some [(''status'', FStr ''success'')])"
proof -
  have t: "page_truthy sample_page" by (simp add: sample_page_def)
  have e: "JStr ''everything'' \<notin>
             {JStr ''full'', JStr ''links'', JStr ''images'', JStr ''text'', JStr ''css''}
           \<or> JStr ''everything'' = JStr ''css'' \<and> \<not> truthy JNull"
    by simp
  have c: "JStr ''css'' \<notin>
             {JStr ''full'', JStr ''links'', JStr ''images'', JStr ''text'', JStr ''css''}
           \<or> JStr ''css'' = JStr ''css'' \<and> \<not> truthy (JStr [])"
    by simp
  from extract_type_not_validated [OF sample_fetched t e]
    extract_type_not_validated [OF sample_fetched t c] sample_fetched t
  show ?thesis by simp
qed

section \<open>The limit of the history request\<close>



end
